theory Spec2Isabelle
  imports Main "HOL-Library.Sublist"
begin

section \<open>Egress validation on GCP: pkg/cloudclient/gcp/private.go\<close>

text \<open>
  A shallow embedding of the egress-validation lifecycle of the GCP cloud client:
  \<^verbatim>\<open>createComputeServiceInstance\<close>, \<^verbatim>\<open>describeComputeServiceInstances\<close>,
  \<^verbatim>\<open>waitForComputeServiceInstanceCompletion\<close>, \<^verbatim>\<open>findUnreachableEndpoints\<close>,
  \<^verbatim>\<open>terminateComputeServiceInstance\<close> and \<^verbatim>\<open>validateEgress\<close>.

  The Go code mutates the client (its \<^verbatim>\<open>output\<close> field) and talks to the compute API. The
  model passes the client explicitly and returns it updated; every call of the compute API
  is appended to the client's \<open>calls\<close>, and what the API answers is read from an
  environment, by the index of the call. Go errors are values of the type \<open>error\<close>; a nil
  error is \<open>None\<close>. A run-time panic (nil pointer dereference) is the outcome \<open>Panic\<close>.
\<close>

subsection \<open>Errors\<close>

datatype error =
    ApiError string
      \<comment> \<open>an error value returned by a call of the compute API\<close>
  | UnableToCreateInstance error
      \<comment> \<open>\<^verbatim>\<open>fmt.Errorf("unable to create instance: %v %v", err, instanceResp)\<close>\<close>
  | UnableToCreateLabels error
      \<comment> \<open>\<^verbatim>\<open>fmt.Errorf("Unable to create labels: %v %v", err, resp)\<close>\<close>
  | FatalStatus string
      \<comment> \<open>\<^verbatim>\<open>fmt.Errorf(status)\<close>\<close>
  | InstanceAlreadyExists string "error option"
      \<comment> \<open>\<^verbatim>\<open>fmt.Errorf("Instance %s already exists with %v state. Please run again", ...)\<close>\<close>
  | MissingPermissions "error option"
      \<comment> \<open>\<^verbatim>\<open>fmt.Errorf("missing required permissions for account: %v", descError)\<close>\<close>
  | TimedOut
      \<comment> \<open>the error of \<^verbatim>\<open>helpers.PollImmediate\<close> when its deadline has passed\<close>
  | EgressURLError string
      \<comment> \<open>\<^verbatim>\<open>handledErrors.NewEgressURLError(message)\<close>\<close>

subsection \<open>The result object\<close>

text \<open>
  Modelled from the spec: package \<^verbatim>\<open>output\<close> is not among the sources. The spec's
  ValidationResult accumulates classified failures and unreachable-endpoint strings and is
  append-only during a run; absence of recorded failures is the success signal. The record
  has one list per method the code calls on it: \<^verbatim>\<open>AddError\<close>, \<^verbatim>\<open>AddException\<close> and
  \<^verbatim>\<open>SetEgressFailures\<close>. A nil error records nothing.
\<close>

record Output =
  errors :: "error list"
  exceptions :: "error list"
  egressFailures :: "string list"

definition AddError :: "Output \<Rightarrow> error option \<Rightarrow> Output" where
  "AddError out err = (case err of None \<Rightarrow> out | Some e \<Rightarrow> out\<lparr>errors := errors out @ [e]\<rparr>)"

definition AddException :: "Output \<Rightarrow> error \<Rightarrow> Output" where
  "AddException out e = out\<lparr>exceptions := exceptions out @ [e]\<rparr>"

definition SetEgressFailures :: "Output \<Rightarrow> string list \<Rightarrow> Output" where
  "SetEgressFailures out fs = out\<lparr>egressFailures := egressFailures out @ fs\<rparr>"

subsection \<open>The client, the compute API and the environment\<close>

text \<open>
  The records keep the field names of the source, with two exceptions: the field \<^verbatim>\<open>zone\<close> of
  the input is \<open>inputZone\<close> (the client has a field of that name too), and the field
  \<^verbatim>\<open>output\<close> of the client is \<open>output'\<close> (the word is reserved). Of the client, the logger and
  the compute service are left out: the calls of the service are the \<open>calls\<close>, its answers the
  environment.
\<close>

record createComputeServiceInstanceInput =
  ContOptImageID :: string
  vpcSubnetID :: string
  userdata :: string
  inputZone :: string
  machineType :: string
  instanceName :: string
  sourceImage :: string
  networkName :: string

record ProxyConfig =
  HttpProxy :: string
  HttpsProxy :: string
  Cacert :: string
  NoTls :: bool

text \<open>The fields of \<^verbatim>\<open>computev1.Instance\<close> the code reads.\<close>

record Instance =
  Status :: string
  LabelFingerprint :: string

datatype api_call =
    Insert createComputeServiceInstanceInput
  | Get string
  | SetLabels string string "(string \<times> string) list"
  | GetSerialPortOutput string
  | Stop string

record Client =
  projectID :: string
  region :: string
  zone :: string
  instanceType :: string
  tags :: "(string \<times> string) list"
  output' :: Output
  calls :: "api_call list"

text \<open>
  How a call ends: it returns, or the goroutine panics. \<open>Panic c\<close> holds the client as it
  was when the panic was raised.
\<close>

datatype 'a outcome = Panic Client | Return 'a

text \<open>
  What the world answers. A call \<^verbatim>\<open>Do()\<close> of the generated compute client returns either a
  nil response with an error (\<open>Inl\<close>) or a response with a nil error (\<open>Inr\<close>). The answers of
  \<^verbatim>\<open>Instances.Get\<close> and \<^verbatim>\<open>Instances.GetSerialPortOutput\<close> are indexed by how many calls
  of that kind the client has made before. The code reads a serial-port response only through
  \<^verbatim>\<open>fmt.Sprintf("%#v", output)\<close>, so the response is represented by that rendering (the
  \<^verbatim>\<open>scriptOutput\<close> of the source); \<open>Inr None\<close> is a nil response with a nil error, which
  the source checks for.

  The other fields stand for what the source takes from libraries and from package
  \<^verbatim>\<open>helpers\<close>: \<^verbatim>\<open>rand.Intn(10000)\<close>, \<^verbatim>\<open>os.Getenv("GCP_VPC_NAME")\<close>,
  \<^verbatim>\<open>helpers.UserdataTemplate\<close>, \<^verbatim>\<open>os.Expand\<close>, \<^verbatim>\<open>time.Duration.String\<close> and
  \<^verbatim>\<open>base64.StdEncoding.EncodeToString\<close>.
\<close>

record env =
  insertResp :: "error option"
  getResp :: "nat \<Rightarrow> error + Instance"
  setLabelsResp :: "error option"
  serialResp :: "nat \<Rightarrow> error + string option"
  stopResp :: "error option"
  randIntn :: nat
  gcpVpcName :: string
  UserdataTemplate :: string
  osExpand :: "string \<Rightarrow> (string \<Rightarrow> string) \<Rightarrow> string"
  durationString :: "nat \<Rightarrow> string"
  base64Encode :: "string \<Rightarrow> string"

fun isGet :: "api_call \<Rightarrow> bool" where
  "isGet (Get _) = True"
| "isGet _ = False"

fun isGetSerialPortOutput :: "api_call \<Rightarrow> bool" where
  "isGetSerialPortOutput (GetSerialPortOutput _) = True"
| "isGetSerialPortOutput _ = False"

fun isStop :: "api_call \<Rightarrow> bool" where
  "isStop (Stop _) = True"
| "isStop _ = False"

definition getCount :: "Client \<Rightarrow> nat" where
  "getCount c = length (filter isGet (calls c))"

definition serialCount :: "Client \<Rightarrow> nat" where
  "serialCount c = length (filter isGetSerialPortOutput (calls c))"

definition stopCalls :: "Client \<Rightarrow> api_call list" where
  "stopCalls c = filter isStop (calls c)"

definition called :: "Client \<Rightarrow> api_call \<Rightarrow> Client" where
  "called c a = c\<lparr>calls := calls c @ [a]\<rparr>"

subsection \<open>Package-level variables\<close>

definition networkValidatorImage :: string where
  "networkValidatorImage = ''quay.io/app-sre/osd-network-verifier:v0.1.159-9a6e0eb''"

definition userdataEndVerifier :: string where
  "userdataEndVerifier = ''USERDATA END''"

subsection \<open>PollImmediate\<close>

text \<open>
  Modelled from the spec: \<^verbatim>\<open>helpers.PollImmediate\<close> is not among the sources. The spec's
  PollLoop invokes the condition at once, then again after each sleep of the interval, until
  the condition reports done with no error (success), reports an error (abort with that
  error; errors are never retried), or the deadline has passed (abort with a timeout error).
  Time is counted in seconds. The condition is invoked at the elapsed times
  \<open>0, interval, 2 * interval, ...\<close> below the timeout, so at most
  \<open>\<lceil>timeout / interval\<rceil>\<close> times; both call sites pass a positive interval.
\<close>

type_synonym 's condition = "'s \<Rightarrow> (bool \<times> error option) \<times> 's"

fun pollTicks :: "nat \<Rightarrow> 's condition \<Rightarrow> 's \<Rightarrow> error option \<times> 's" where
  "pollTicks 0 cond s = (Some TimedOut, s)"
| "pollTicks (Suc n) cond s =
     (case cond s of
        ((done, Some e), s') \<Rightarrow> (Some e, s')
      | ((True, None), s') \<Rightarrow> (None, s')
      | ((False, None), s') \<Rightarrow> pollTicks n cond s')"

definition ticksBefore :: "nat \<Rightarrow> nat \<Rightarrow> nat" where
  "ticksBefore interval timeout = (timeout + interval - 1) div interval"

definition PollImmediate :: "nat \<Rightarrow> nat \<Rightarrow> 's condition \<Rightarrow> 's \<Rightarrow> error option \<times> 's" where
  "PollImmediate interval timeout cond s = pollTicks (ticksBefore interval timeout) cond s"

subsection \<open>createComputeServiceInstance\<close>

text \<open>
  After a successful insert the source fetches the instance for its label fingerprint. When
  that call fails the error is only logged, and the next statement reads
  \<^verbatim>\<open>inst.LabelFingerprint\<close> from the nil response: a nil pointer dereference.
\<close>

definition createComputeServiceInstance ::
  "env \<Rightarrow> Client \<Rightarrow> createComputeServiceInstanceInput \<Rightarrow>
     (createComputeServiceInstanceInput \<times> error option \<times> Client) outcome" where
  "createComputeServiceInstance e c input =
     (let c1 = called c (Insert input) in
      case insertResp e of
        Some err \<Rightarrow> Return (input, Some (UnableToCreateInstance err), c1)
      | None \<Rightarrow>
          (let inst = getResp e (getCount c1);
               c2 = called c1 (Get (instanceName input))
           in case inst of
                Inl err \<Rightarrow> Panic c2
              | Inr i \<Rightarrow>
                  (let c3 = called c2 (SetLabels (instanceName input) (LabelFingerprint i) (tags c))
                   in case setLabelsResp e of
                        Some err \<Rightarrow> Return (input, Some (UnableToCreateLabels err), c3)
                      | None \<Rightarrow> Return (input, None, c3))))"

subsection \<open>describeComputeServiceInstances and the readiness wait\<close>

definition describeComputeServiceInstances ::
  "env \<Rightarrow> Client \<Rightarrow> string \<Rightarrow> (string \<times> error option) \<times> Client" where
  "describeComputeServiceInstances e c name =
     (let c1 = called c (Get name) in
      case getResp e (getCount c) of
        Inl err \<Rightarrow> ((''PERMISSION DENIED'', Some err), c1)
      | Inr resp \<Rightarrow>
          (let status = Status resp in
           if status \<in> {''STOPPING'', ''STOPPED'', ''TERMINATED'', ''SUSPENDED''}
           then ((''FATAL'', Some (FatalStatus status)), c1)
           else ((status, None), c1)))"

definition waitCondition :: "env \<Rightarrow> string \<Rightarrow> Client condition" where
  "waitCondition e name c =
     (case describeComputeServiceInstances e c name of
        ((code, descError), c1) \<Rightarrow>
          if code = ''RUNNING'' then ((True, None), c1)
          else if code = ''FATAL'' then ((False, Some (InstanceAlreadyExists name descError)), c1)
          else if code = ''PERMISSION DENIED'' then ((False, Some (MissingPermissions descError)), c1)
          else (case descError of
                  Some err \<Rightarrow> ((False, Some err), c1)
                | None \<Rightarrow> ((False, None), c1)))"

definition waitForComputeServiceInstanceCompletion ::
  "env \<Rightarrow> Client \<Rightarrow> string \<Rightarrow> error option \<times> Client" where
  "waitForComputeServiceInstanceCompletion e c name =
     PollImmediate 5 (2 * 60) (waitCondition e name) c"

subsection \<open>Regular expressions of the console-log analyzer\<close>

text \<open>
  The three patterns of \<^verbatim>\<open>findUnreachableEndpoints\<close>, each as the function on strings that
  Go's \<^verbatim>\<open>regexp\<close> computes for it (leftmost-first, non-overlapping matches).
\<close>

fun contains :: "string \<Rightarrow> string \<Rightarrow> bool" where
  "contains pat [] = (pat = [])"
| "contains pat (c # cs) = (prefix pat (c # cs) \<or> contains pat cs)"

text \<open>
  \<^verbatim>\<open>reVerify.FindString\<close>: the pattern, \<^verbatim>\<open>userdataEndVerifier\<close>, has no metacharacter, so
  the match is the literal itself where the text contains it, and the empty string otherwise.
\<close>

definition reVerify_FindString :: "string \<Rightarrow> string" where
  "reVerify_FindString text = (if contains userdataEndVerifier text then userdataEndVerifier else [])"

text \<open>
  \<^verbatim>\<open>rgx.FindAllStringSubmatch\<close> for
  \<^verbatim>\<open>(?m)^(.*Cannot.*)|(.*Could not.*)|(.*Failed.*)|(.*command not found.*)\<close>: a dot does not
  match a line feed and each alternative starts with \<^verbatim>\<open>.*\<close>, so the matches are the lines
  that contain one of the four literals, one match per line.
\<close>

fun splitLines :: "string \<Rightarrow> string list" where
  "splitLines [] = [[]]"
| "splitLines (c # cs) =
     (if c = CHR 0x0A then [] # splitLines cs
      else (case splitLines cs of [] \<Rightarrow> [[c]] | l # ls \<Rightarrow> (c # l) # ls))"

definition failureIndicator :: "string \<Rightarrow> bool" where
  "failureIndicator line =
     (contains ''Cannot'' line \<or> contains ''Could not'' line \<or> contains ''Failed'' line
      \<or> contains ''command not found'' line)"

definition rgx_FindAll :: "string \<Rightarrow> string list" where
  "rgx_FindAll text = filter failureIndicator (splitLines text)"

text \<open>
  \<^verbatim>\<open>reUnreachableErrors.FindAllString\<close> for \<^verbatim>\<open>Unable to reach (\S+)\<close>: each match is the
  literal followed by the longest run of characters that are not white space (at least one);
  the search goes on after the match. \<^verbatim>\<open>FindAllString\<close> returns the whole matches, not the
  capture group.
\<close>

definition isSpace :: "char \<Rightarrow> bool" where
  "isSpace c = (c \<in> {CHR 0x09, CHR 0x0A, CHR 0x0C, CHR 0x0D, CHR '' ''})"

definition unableToReach :: string where
  "unableToReach = ''Unable to reach ''"

function reUnreachableErrors_FindAllString :: "string \<Rightarrow> string list" where
  "reUnreachableErrors_FindAllString [] = []"
| "reUnreachableErrors_FindAllString (c # cs) =
     (let tok = takeWhile (\<lambda>x. \<not> isSpace x) (drop (length unableToReach) (c # cs)) in
      if prefix unableToReach (c # cs) \<and> tok \<noteq> []
      then (unableToReach @ tok)
             # reUnreachableErrors_FindAllString (drop (length unableToReach + length tok) (c # cs))
      else reUnreachableErrors_FindAllString cs)"
  by pat_completeness auto
termination
  by (relation "measure length") (auto simp: unableToReach_def)

subsection \<open>findUnreachableEndpoints\<close>

definition connectivityProblem :: error where
  "connectivityProblem = EgressURLError
     ''internet connectivity problem: please ensure there's internet access in given vpc subnets''"

definition consoleCondition :: "env \<Rightarrow> string \<Rightarrow> Client condition" where
  "consoleCondition e name c =
     (let c1 = called c (GetSerialPortOutput name) in
      case serialResp e (serialCount c) of
        Inl err \<Rightarrow> ((False, Some err), c1)
      | Inr None \<Rightarrow> ((False, None), c1)
      | Inr (Some scriptOutput) \<Rightarrow>
          if length scriptOutput < 1 then ((False, None), c1)
          else
            (let verifyMatch = reVerify_FindString scriptOutput in
             if length verifyMatch < 1 then ((False, None), c1)
             else
               (let notFoundMatch = rgx_FindAll scriptOutput;
                    c2 = (if length notFoundMatch > 0
                          then c1\<lparr>output' := AddException (output' c1) connectivityProblem\<rparr>
                          else c1);
                    c3 = c2\<lparr>output' := SetEgressFailures (output' c2)
                                           (reUnreachableErrors_FindAllString scriptOutput)\<rparr>
                in ((True, None), c3))))"

definition findUnreachableEndpoints :: "env \<Rightarrow> Client \<Rightarrow> string \<Rightarrow> error option \<times> Client" where
  "findUnreachableEndpoints e c name = PollImmediate 30 (4 * 60) (consoleCondition e name) c"

subsection \<open>terminateComputeServiceInstance, setCloudImage, generateUserData\<close>

definition terminateComputeServiceInstance :: "env \<Rightarrow> Client \<Rightarrow> string \<Rightarrow> Client" where
  "terminateComputeServiceInstance e c name =
     (let c1 = called c (Stop name) in c1\<lparr>output' := AddError (output' c1) (stopResp e)\<rparr>)"

definition setCloudImage :: "string \<Rightarrow> string \<times> error option" where
  "setCloudImage cloudImageID =
     (if cloudImageID = [] then (''cos-97-lts'', None) else (cloudImageID, None))"

definition generateUserData :: "env \<Rightarrow> (string \<rightharpoonup> string) \<Rightarrow> string \<times> error option" where
  "generateUserData e variables =
     (let variableMapper = (\<lambda>varName. case variables varName of None \<Rightarrow> [] | Some v \<Rightarrow> v)
      in (osExpand e (UserdataTemplate e) variableMapper, None))"

subsection \<open>validateEgress\<close>

definition FormatBool :: "bool \<Rightarrow> string" where
  "FormatBool b = (if b then ''true'' else ''false'')"

function showNat :: "nat \<Rightarrow> string" where
  "showNat n =
     (if n < 10 then [''0123456789'' ! n]
      else showNat (n div 10) @ [''0123456789'' ! (n mod 10)])"
  by pat_completeness auto
termination
  by (relation "measure id") auto

declare showNat.simps [simp del]

definition userDataVariables :: "env \<Rightarrow> nat \<Rightarrow> ProxyConfig \<Rightarrow> (string \<rightharpoonup> string)" where
  "userDataVariables e timeout p = map_of
     [(''AWS_REGION'', ''us-east-2''),
      (''USERDATA_BEGIN'', ''USERDATA BEGIN''),
      (''USERDATA_END'', userdataEndVerifier),
      (''VALIDATOR_START_VERIFIER'', ''VALIDATOR START''),
      (''VALIDATOR_END_VERIFIER'', ''VALIDATOR END''),
      (''VALIDATOR_IMAGE'', networkValidatorImage),
      (''TIMEOUT'', durationString e timeout),
      (''HTTP_PROXY'', HttpProxy p),
      (''HTTPS_PROXY'', HttpsProxy p),
      (''CACERT'', base64Encode e (Cacert p)),
      (''NOTLS'', FormatBool (NoTls p))]"

definition instanceInput ::
  "env \<Rightarrow> Client \<Rightarrow> string \<Rightarrow> string \<Rightarrow> string \<Rightarrow> createComputeServiceInstanceInput" where
  "instanceInput e c subnet userData cloudImageID =
     \<lparr>ContOptImageID = [],
      vpcSubnetID = ''projects/'' @ projectID c @ ''/regions/'' @ region c @ ''/subnetworks/'' @ subnet,
      userdata = userData,
      inputZone = zone c,
      machineType = instanceType c,
      instanceName = ''verifier-'' @ showNat (randIntn e),
      sourceImage = ''projects/cos-cloud/global/images/family/'' @ cloudImageID,
      networkName = ''projects/'' @ projectID c @ ''/global/networks/'' @ gcpVpcName e\<rparr>"

text \<open>
  The value returned is the client after the run; its \<open>output'\<close> is the \<^verbatim>\<open>*output.Output\<close>
  the source returns (a pointer to \<^verbatim>\<open>c.output\<close>).
\<close>

definition validateEgress ::
  "env \<Rightarrow> Client \<Rightarrow> string \<Rightarrow> string \<Rightarrow> string \<Rightarrow> nat \<Rightarrow> ProxyConfig \<Rightarrow> Client outcome" where
  "validateEgress e c subnet cloudImageID kmsKeyID timeout p =
     (case generateUserData e (userDataVariables e timeout p) of
        (userData, Some err) \<Rightarrow> Return (c\<lparr>output' := AddError (output' c) (Some err)\<rparr>)
      | (userData, None) \<Rightarrow>
     (case setCloudImage cloudImageID of
        (imageID, Some err) \<Rightarrow> Return (c\<lparr>output' := AddError (output' c) (Some err)\<rparr>)
      | (imageID, None) \<Rightarrow>
     (case createComputeServiceInstance e c (instanceInput e c subnet userData imageID) of
        Panic c1 \<Rightarrow> Panic c1
      | Return (instance, Some err, c1) \<Rightarrow>
          (let c2 = terminateComputeServiceInstance e c1 (instanceName instance)
           in Return (c2\<lparr>output' := AddError (output' c2) (Some err)\<rparr>))
      | Return (instance, None, c1) \<Rightarrow>
     (case waitForComputeServiceInstanceCompletion e c1 (instanceName instance) of
        (Some instanceReadyErr, c2) \<Rightarrow>
          (let c3 = terminateComputeServiceInstance e c2 (instanceName instance)
           in Return (c3\<lparr>output' := AddError (output' c3) (Some instanceReadyErr)\<rparr>))
      | (None, c2) \<Rightarrow>
     (case findUnreachableEndpoints e c2 (instanceName instance) of
        (err, c3) \<Rightarrow>
          (let c4 = (case err of
                       Some err' \<Rightarrow> c3\<lparr>output' := AddError (output' c3) (Some err')\<rparr>
                     | None \<Rightarrow> c3)
           in Return (terminateComputeServiceInstance e c4 (instanceName instance))))))))"

subsection \<open>Vocabulary of the statements\<close>

text \<open>
  \<open>pendingAt e n\<close>: the \<open>n\<close>-th answer of \<^verbatim>\<open>Instances.Get\<close> is a response whose status makes
  the readiness wait go on: it is none of \<^verbatim>\<open>RUNNING\<close>, the four fatal statuses, and the two
  codes \<^verbatim>\<open>FATAL\<close> and \<^verbatim>\<open>PERMISSION DENIED\<close> that \<^verbatim>\<open>describeComputeServiceInstances\<close>
  itself returns. \<open>described c name k\<close> is the client after \<open>k\<close> more describe calls.
\<close>

definition pendingAt :: "env \<Rightarrow> nat \<Rightarrow> bool" where
  "pendingAt e n =
     (case getResp e n of
        Inl err \<Rightarrow> False
      | Inr resp \<Rightarrow>
          Status resp \<notin> {''RUNNING'', ''STOPPING'', ''STOPPED'', ''TERMINATED'', ''SUSPENDED'',
                           ''FATAL'', ''PERMISSION DENIED''})"

definition described :: "Client \<Rightarrow> string \<Rightarrow> nat \<Rightarrow> Client" where
  "described c name k = c\<lparr>calls := calls c @ replicate k (Get name)\<rparr>"

text \<open>
  \<open>noMarkerAt e n\<close>: the \<open>n\<close>-th answer of \<^verbatim>\<open>Instances.GetSerialPortOutput\<close> is no error and
  shows no completion marker (a nil response, or a text that does not contain it).
  \<open>fetched c name k\<close> is the client after \<open>k\<close> more console fetches.
\<close>

definition noMarkerAt :: "env \<Rightarrow> nat \<Rightarrow> bool" where
  "noMarkerAt e n =
     (case serialResp e n of
        Inl err \<Rightarrow> False
      | Inr None \<Rightarrow> True
      | Inr (Some scriptOutput) \<Rightarrow> \<not> sublist userdataEndVerifier scriptOutput)"

definition fetched :: "Client \<Rightarrow> string \<Rightarrow> nat \<Rightarrow> Client" where
  "fetched c name k = c\<lparr>calls := calls c @ replicate k (GetSerialPortOutput name)\<rparr>"


fun returned :: "'a outcome \<Rightarrow> bool" where
  "returned (Return x) = True"
| "returned (Panic c) = False"

fun clientOf :: "Client outcome \<Rightarrow> Client" where
  "clientOf (Return c) = c"
| "clientOf (Panic c) = c"

subsection \<open>Concrete runs\<close>

definition client0 :: Client where
  "client0 =
     \<lparr>projectID = ''project'', region = ''us-east1'', zone = ''us-east1-b'',
      instanceType = ''e2-standard-2'', tags = [(''owner'', ''sre'')],
      output' = \<lparr>errors = [], exceptions = [], egressFailures = []\<rparr>,
      calls = []\<rparr>"

definition proxy0 :: ProxyConfig where
  "proxy0 = \<lparr>HttpProxy = [], HttpsProxy = [], Cacert = [], NoTls = False\<rparr>"

definition withStatus :: "string \<Rightarrow> Instance" where
  "withStatus st = \<lparr>Status = st, LabelFingerprint = ''42WmSpB8rSM=''\<rparr>"

definition consoleTwoHosts :: string where
  "consoleTwoHosts =
     ''USERDATA BEGIN Unable to reach host1.example.com Unable to reach host2.example.com USERDATA END''"

definition consoleFailedLines :: string where
  "consoleFailedLines =
     ''Failed to connect'' @ [CHR 0x0A] @ ''curl: command not found'' @ [CHR 0x0A] @ ''USERDATA END''"

definition consolePartial :: string where
  "consolePartial = ''USERDATA BEGIN Failed to connect Unable to reach host1.example.com''"

text \<open>Every call succeeds, the instance runs at once, the console shows the finished script.\<close>

definition env_ok :: env where
  "env_ok =
     \<lparr>insertResp = None,
      getResp = (\<lambda>n. Inr (withStatus ''RUNNING'')),
      setLabelsResp = None,
      serialResp = (\<lambda>n. Inr (Some consoleTwoHosts)),
      stopResp = None,
      randIntn = 7,
      gcpVpcName = ''vpc'',
      UserdataTemplate = ''echo ${USERDATA_END}'',
      osExpand = (\<lambda>template mapping. ''echo '' @ mapping ''USERDATA_END''),
      durationString = (\<lambda>n. showNat n @ ''s''),
      base64Encode = (\<lambda>s. s)\<rparr>"

text \<open>The insert call fails: no instance is created.\<close>

definition env_insert_fails :: env where
  "env_insert_fails = env_ok\<lparr>insertResp := Some (ApiError ''quota exceeded'')\<rparr>"

text \<open>The insert call succeeds, every \<^verbatim>\<open>Instances.Get\<close> fails.\<close>

definition env_get_fails :: env where
  "env_get_fails = env_ok\<lparr>getResp := (\<lambda>n. Inl (ApiError ''forbidden''))\<rparr>"


text \<open>The instance never leaves \<^verbatim>\<open>PROVISIONING\<close>; only the first call, the one of
  \<^verbatim>\<open>createComputeServiceInstance\<close>, is answered with a running instance.\<close>

definition env_stuck :: env where
  "env_stuck = env_ok\<lparr>getResp := (\<lambda>n. if n = 0 then Inr (withStatus ''RUNNING'')
                                       else Inr (withStatus ''PROVISIONING''))\<rparr>"

text \<open>Two pending describes, then the instance is found stopped.\<close>

definition env_stopped :: env where
  "env_stopped = env_ok\<lparr>getResp := (\<lambda>n. if n < 2 then Inr (withStatus [])
                                         else Inr (withStatus ''STOPPED''))\<rparr>"

text \<open>Two pending describes, then the describe call fails.\<close>

definition env_describe_fails :: env where
  "env_describe_fails = env_ok\<lparr>getResp := (\<lambda>n. if n < 2 then Inr (withStatus ''STAGING'')
                                                else Inl (ApiError ''connection reset''))\<rparr>"

text \<open>The provider reports the status string \<^verbatim>\<open>FATAL\<close> once, then \<^verbatim>\<open>RUNNING\<close>.\<close>

definition env_sentinel :: env where
  "env_sentinel = env_ok\<lparr>getResp := (\<lambda>n. if n = 0 then Inr (withStatus ''FATAL'')
                                          else Inr (withStatus ''RUNNING''))\<rparr>"

text \<open>The console first shows a partial log with failure patterns and no marker, then the
  finished log.\<close>

definition env_partial_console :: env where
  "env_partial_console = env_ok\<lparr>serialResp := (\<lambda>n. if n = 0 then Inr (Some consolePartial)
                                                    else Inr (Some consoleTwoHosts))\<rparr>"

text \<open>The console never shows the marker.\<close>

definition env_silent_console :: env where
  "env_silent_console = env_ok\<lparr>serialResp := (\<lambda>n. Inr (Some consolePartial))\<rparr>"

definition env_failed_console :: env where
  "env_failed_console = env_ok\<lparr>serialResp := (\<lambda>n. if n = 0 then Inr None
                                                   else Inr (Some consoleFailedLines))\<rparr>"

section \<open>Properties\<close>

subsection \<open>Calls and counters\<close>

lemma contains_sublist: "contains pat t = sublist pat t"
  by (induction t) (auto simp: sublist_Cons_right)

lemma calls_called [simp]: "calls (called c a) = calls c @ [a]"
  by (simp add: called_def)

lemma output_called [simp]: "output' (called c a) = output' c"
  by (simp add: called_def)

lemma tags_called [simp]: "tags (called c a) = tags c"
  by (simp add: called_def)

lemma getCount_called [simp]: "getCount (called c a) = (if isGet a then Suc (getCount c) else getCount c)"
  by (simp add: getCount_def)

lemma serialCount_called [simp]:
  "serialCount (called c a) = (if isGetSerialPortOutput a then Suc (serialCount c) else serialCount c)"
  by (simp add: serialCount_def)

lemma stopCalls_called [simp]:
  "stopCalls (called c a) = (if isStop a then stopCalls c @ [a] else stopCalls c)"
  by (simp add: stopCalls_def)

lemma stopCalls_output_update [simp]: "stopCalls (c\<lparr>output' := x\<rparr>) = stopCalls c"
  by (simp add: stopCalls_def)

lemma getCount_output_update [simp]: "getCount (c\<lparr>output' := x\<rparr>) = getCount c"
  by (simp add: getCount_def)

lemma serialCount_output_update [simp]: "serialCount (c\<lparr>output' := x\<rparr>) = serialCount c"
  by (simp add: serialCount_def)

lemma getCount_client0 [simp]: "getCount client0 = 0"
  by (simp add: getCount_def client0_def)

lemma serialCount_client0 [simp]: "serialCount client0 = 0"
  by (simp add: serialCount_def client0_def)

subsection \<open>The poll loop\<close>

lemma pollTicks_preserves:
  assumes "\<And>s. P s \<Longrightarrow> P (snd (cond s))" and "P s"
  shows "P (snd (pollTicks n cond s))"
  using assms(2)
proof (induction n arbitrary: s)
  case 0
  then show ?case by simp
next
  case (Suc n)
  from assms(1)[OF Suc.prems] have "P (snd (cond s))" .
  then show ?case
    using Suc.IH[of "snd (cond s)"]
    by (auto split: prod.splits option.splits bool.splits)
qed

lemma ticksBefore_wait [simp]: "ticksBefore 5 120 = 24"
  by (simp add: ticksBefore_def)

lemma ticksBefore_console [simp]: "ticksBefore 30 240 = 8"
  by (simp add: ticksBefore_def)

subsection \<open>The readiness wait, tick by tick\<close>

lemma described_0 [simp]: "described c name 0 = c"
  by (simp add: described_def)

lemma described_called: "described (called c (Get name)) name k = described c name (Suc k)"
  by (simp add: described_def called_def)

lemma described_Suc: "called (described c name k) (Get name) = described c name (Suc k)"
  by (simp add: described_def called_def replicate_append_same)

lemma getCount_described [simp]: "getCount (described c name k) = getCount c + k"
  by (simp add: described_def getCount_def)

lemma errors_described [simp]: "output' (described c name k) = output' c"
  by (simp add: described_def)

lemma waitCondition_pending:
  "pendingAt e (getCount c) \<Longrightarrow> waitCondition e name c = ((False, None), called c (Get name))"
  by (auto simp: pendingAt_def waitCondition_def describeComputeServiceInstances_def Let_def
      split: sum.splits)

lemma wait_skip:
  "\<forall>i<k. pendingAt e (getCount c + i) \<Longrightarrow>
   pollTicks (k + n) (waitCondition e name) c = pollTicks n (waitCondition e name) (described c name k)"
proof (induction k arbitrary: c)
  case 0
  then show ?case by simp
next
  case (Suc k)
  from Suc.prems have p0: "pendingAt e (getCount c)" by force
  from Suc.prems have "\<forall>i<k. pendingAt e (getCount (called c (Get name)) + i)" by auto
  from Suc.IH[OF this] show ?case
    by (simp add: waitCondition_pending[OF p0] described_called)
qed

lemma wait_reaches:
  assumes "k < 24" and "\<forall>i<k. pendingAt e (getCount c + i)"
  shows "waitForComputeServiceInstanceCompletion e c name =
         pollTicks (Suc (23 - k)) (waitCondition e name) (described c name k)"
proof -
  have "24 = k + Suc (23 - k)" using assms(1) by simp
  then have "pollTicks 24 (waitCondition e name) c = pollTicks (k + Suc (23 - k)) (waitCondition e name) c"
    by simp
  also have "\<dots> = pollTicks (Suc (23 - k)) (waitCondition e name) (described c name k)"
    by (rule wait_skip[OF assms(2)])
  finally show ?thesis
    by (simp add: waitForComputeServiceInstanceCompletion_def PollImmediate_def)
qed


lemma waitCondition_error:
  "getResp e (getCount c) = Inl err \<Longrightarrow>
   waitCondition e name c = ((False, Some (MissingPermissions (Some err))), called c (Get name))"
  by (simp add: waitCondition_def describeComputeServiceInstances_def Let_def)

lemma waitCondition_fatal:
  "getResp e (getCount c) = Inr resp \<Longrightarrow>
   Status resp \<in> {''STOPPING'', ''STOPPED'', ''TERMINATED'', ''SUSPENDED''} \<Longrightarrow>
   waitCondition e name c =
     ((False, Some (InstanceAlreadyExists name (Some (FatalStatus (Status resp))))), called c (Get name))"
  by (simp add: waitCondition_def describeComputeServiceInstances_def Let_def)

lemma waitCondition_running:
  "getResp e (getCount c) = Inr resp \<Longrightarrow> Status resp = ''RUNNING'' \<Longrightarrow>
   waitCondition e name c = ((True, None), called c (Get name))"
  by (simp add: waitCondition_def describeComputeServiceInstances_def Let_def)

lemma waitCondition_sentinel_fatal:
  "getResp e (getCount c) = Inr resp \<Longrightarrow> Status resp = ''FATAL'' \<Longrightarrow>
   waitCondition e name c = ((False, Some (InstanceAlreadyExists name None)), called c (Get name))"
  by (simp add: waitCondition_def describeComputeServiceInstances_def Let_def)

lemma waitCondition_sentinel_denied:
  "getResp e (getCount c) = Inr resp \<Longrightarrow> Status resp = ''PERMISSION DENIED'' \<Longrightarrow>
   waitCondition e name c = ((False, Some (MissingPermissions None)), called c (Get name))"
  by (simp add: waitCondition_def describeComputeServiceInstances_def Let_def)

subsection \<open>The console-log analyzer, tick by tick\<close>

lemma fetched_0 [simp]: "fetched c name 0 = c"
  by (simp add: fetched_def)

lemma fetched_called:
  "fetched (called c (GetSerialPortOutput name)) name k = fetched c name (Suc k)"
  by (simp add: fetched_def called_def)

lemma fetched_Suc: "called (fetched c name k) (GetSerialPortOutput name) = fetched c name (Suc k)"
  by (simp add: fetched_def called_def replicate_append_same)

lemma serialCount_fetched [simp]: "serialCount (fetched c name k) = serialCount c + k"
  by (simp add: fetched_def serialCount_def)

lemma output_fetched [simp]: "output' (fetched c name k) = output' c"
  by (simp add: fetched_def)

lemma marker_nonempty: "sublist userdataEndVerifier t \<Longrightarrow> t \<noteq> []"
  by (auto simp: userdataEndVerifier_def)

lemma consoleCondition_no_marker:
  "noMarkerAt e (serialCount c) \<Longrightarrow>
   consoleCondition e name c = ((False, None), called c (GetSerialPortOutput name))"
  by (auto simp: noMarkerAt_def consoleCondition_def reVerify_FindString_def contains_sublist Let_def
      split: sum.splits option.splits)

lemma consoleCondition_marker:
  assumes "serialResp e (serialCount c) = Inr (Some t)" and "sublist userdataEndVerifier t"
  shows "consoleCondition e name c =
    ((True, None),
     (called c (GetSerialPortOutput name))
       \<lparr>output' :=
          \<lparr>errors = errors (output' c),
           exceptions = exceptions (output' c) @
             (if \<exists>l \<in> set (splitLines t). failureIndicator l then [connectivityProblem] else []),
           egressFailures = egressFailures (output' c) @ reUnreachableErrors_FindAllString t\<rparr>\<rparr>)"
proof -
  have ne: "t \<noteq> []" using assms(2) by (rule marker_nonempty)
  have v: "reVerify_FindString t = userdataEndVerifier"
    using assms(2) by (simp add: reVerify_FindString_def contains_sublist)
  have l: "userdataEndVerifier \<noteq> []" by (simp add: userdataEndVerifier_def)
  have f: "(rgx_FindAll t \<noteq> []) = (\<exists>l \<in> set (splitLines t). failureIndicator l)"
    by (auto simp: rgx_FindAll_def filter_empty_conv)
  have r: "\<And>out x y. out\<lparr>exceptions := x, egressFailures := y\<rparr> =
             \<lparr>errors = errors out, exceptions = x, egressFailures = y\<rparr>"
    by simp
  have r': "\<And>out y. out\<lparr>egressFailures := y\<rparr> =
             \<lparr>errors = errors out, exceptions = exceptions out, egressFailures = y\<rparr>"
    by simp
  show ?thesis
    using ne
    by (simp add: consoleCondition_def assms(1) v l f Let_def AddException_def SetEgressFailures_def r r')
qed

lemma console_skip:
  "\<forall>i<k. noMarkerAt e (serialCount c + i) \<Longrightarrow>
   pollTicks (k + n) (consoleCondition e name) c =
   pollTicks n (consoleCondition e name) (fetched c name k)"
proof (induction k arbitrary: c)
  case 0
  then show ?case by simp
next
  case (Suc k)
  from Suc.prems have p0: "noMarkerAt e (serialCount c)" by force
  from Suc.prems have "\<forall>i<k. noMarkerAt e (serialCount (called c (GetSerialPortOutput name)) + i)"
    by auto
  from Suc.IH[OF this] show ?case
    by (simp add: consoleCondition_no_marker[OF p0] fetched_called)
qed

lemma console_reaches:
  assumes "k < 8" and "\<forall>i<k. noMarkerAt e (serialCount c + i)"
  shows "findUnreachableEndpoints e c name =
         pollTicks (Suc (7 - k)) (consoleCondition e name) (fetched c name k)"
proof -
  have "8 = k + Suc (7 - k)" using assms(1) by simp
  then have "pollTicks 8 (consoleCondition e name) c =
             pollTicks (k + Suc (7 - k)) (consoleCondition e name) c"
    by simp
  also have "\<dots> = pollTicks (Suc (7 - k)) (consoleCondition e name) (fetched c name k)"
    by (rule console_skip[OF assms(2)])
  finally show ?thesis
    by (simp add: findUnreachableEndpoints_def PollImmediate_def)
qed

lemma console_run:
  assumes "k < 8" and "\<forall>i<k. noMarkerAt e (serialCount c + i)"
    and "serialResp e (serialCount c + k) = Inr (Some t)" and "sublist userdataEndVerifier t"
  shows "findUnreachableEndpoints e c name =
    (None,
     (fetched c name (Suc k))
       \<lparr>output' :=
          \<lparr>errors = errors (output' c),
           exceptions = exceptions (output' c) @
             (if \<exists>l \<in> set (splitLines t). failureIndicator l then [connectivityProblem] else []),
           egressFailures = egressFailures (output' c) @ reUnreachableErrors_FindAllString t\<rparr>\<rparr>)"
proof -
  have g: "serialResp e (serialCount (fetched c name k)) = Inr (Some t)"
    using assms(3) by simp
  show ?thesis
    by (simp add: console_reaches[OF assms(1,2)] consoleCondition_marker[OF g assms(4)] fetched_Suc)
qed

lemma console_timeout:
  assumes "\<forall>i<8. noMarkerAt e (serialCount c + i)"
  shows "findUnreachableEndpoints e c name = (Some TimedOut, fetched c name 8)"
  using console_skip[OF assms, of 0 name]
  by (simp add: findUnreachableEndpoints_def PollImmediate_def)

subsection \<open>The matches of the unreachable-endpoint pattern\<close>





subsection \<open>Stop calls along a run\<close>

lemma create_returns:
  assumes "createComputeServiceInstance e c input = Return (i, err, c1)"
  shows "i = input \<and> stopCalls c1 = stopCalls c"
  using assms
  by (auto simp: createComputeServiceInstance_def Let_def split: option.splits sum.splits)


lemma waitCondition_stopCalls: "stopCalls (snd (waitCondition e name s)) = stopCalls s"
  by (auto simp: waitCondition_def describeComputeServiceInstances_def Let_def
      split: sum.splits option.splits)

lemma consoleCondition_stopCalls: "stopCalls (snd (consoleCondition e name s)) = stopCalls s"
  by (auto simp: consoleCondition_def Let_def split: sum.splits option.splits)

lemma wait_stopCalls:
  "stopCalls (snd (waitForComputeServiceInstanceCompletion e c name)) = stopCalls c"
  unfolding waitForComputeServiceInstanceCompletion_def PollImmediate_def
  by (rule pollTicks_preserves) (simp_all add: waitCondition_stopCalls)

lemma find_stopCalls:
  "stopCalls (snd (findUnreachableEndpoints e c name)) = stopCalls c"
  unfolding findUnreachableEndpoints_def PollImmediate_def
  by (rule pollTicks_preserves) (simp_all add: consoleCondition_stopCalls)

lemma terminate_stopCalls:
  "stopCalls (terminateComputeServiceInstance e c name) = stopCalls c @ [Stop name]"
  by (simp add: terminateComputeServiceInstance_def Let_def)

lemma instanceName_instanceInput [simp]:
  "instanceName (instanceInput e c subnet ud img) = ''verifier-'' @ showNat (randIntn e)"
  by (simp add: instanceInput_def)

subsection \<open>Termination of the instance (C1)\<close>

text \<open>
  Claim C1, as the code has it. On every run of \<^verbatim>\<open>validateEgress\<close> that returns to its caller,
  \<^verbatim>\<open>terminateComputeServiceInstance\<close> is invoked exactly once, for the instance name of the
  run: the stop calls of the client after the run are those before it and one more. This
  covers the path on which \<^verbatim>\<open>createComputeServiceInstance\<close> returns an error, where the source
  calls terminate before it records the error, as well as a failed readiness wait, a
  finished analysis and an analysis that timed out.
\<close>

theorem terminate_once_when_returning:
  assumes "validateEgress e c subnet cloudImageID kmsKeyID timeout p = Return c'"
  shows "stopCalls c' = stopCalls c @ [Stop (''verifier-'' @ showNat (randIntn e))]"
proof -
  define ud where "ud = fst (generateUserData e (userDataVariables e timeout p))"
  define img where "img = fst (setCloudImage cloudImageID)"
  define name where "name = ''verifier-'' @ showNat (randIntn e)"
  have gen: "generateUserData e (userDataVariables e timeout p) = (ud, None)"
    by (simp add: ud_def generateUserData_def Let_def)
  have sci: "setCloudImage cloudImageID = (img, None)"
    by (simp add: img_def setCloudImage_def)
  show ?thesis
  proof (cases "createComputeServiceInstance e c (instanceInput e c subnet ud img)")
    case (Panic c1)
    with assms show ?thesis
      by (simp add: validateEgress_def gen sci)
  next
    case (Return r)
    obtain i err c1 where r: "r = (i, err, c1)" by (cases r) auto
    from create_returns[OF Return[unfolded r]]
    have i: "i = instanceInput e c subnet ud img" and s1: "stopCalls c1 = stopCalls c" by auto
    have n: "instanceName i = name" by (simp add: i name_def)
    show ?thesis
    proof (cases err)
      case (Some x)
      with assms Return r n s1 show ?thesis
        by (auto simp: validateEgress_def gen sci Let_def terminate_stopCalls name_def)
    next
      case None
      obtain w c2 where w: "waitForComputeServiceInstanceCompletion e c1 name = (w, c2)"
        by (cases "waitForComputeServiceInstanceCompletion e c1 name") auto
      have s2: "stopCalls c2 = stopCalls c"
        using wait_stopCalls[of e c1 name] w s1 by simp
      show ?thesis
      proof (cases w)
        case (Some x)
        with assms Return r n None w s2 show ?thesis
          by (auto simp: validateEgress_def gen sci Let_def terminate_stopCalls name_def)
      next
        case wNone: None
        obtain f c3 where f: "findUnreachableEndpoints e c2 name = (f, c3)"
          by (cases "findUnreachableEndpoints e c2 name") auto
        have s3: "stopCalls c3 = stopCalls c"
          using find_stopCalls[of e c2 name] f s2 by simp
        from assms Return r n None w wNone f s3 show ?thesis
          by (auto simp: validateEgress_def gen sci Let_def terminate_stopCalls name_def
              split: option.splits)
      qed
    qed
  qed
qed

text \<open>
  The theorem at three runs: every call succeeds and the analysis finishes; the instance
  never gets ready and the readiness wait times out; the console never shows the marker
  and the analysis times out. Each makes one stop call.
\<close>

theorem terminate_once_when_returning_witness:
  "returned (validateEgress env_ok client0 ''subnet'' [] [] 10 proxy0)
   \<and> stopCalls (clientOf (validateEgress env_ok client0 ''subnet'' [] [] 10 proxy0))
       = [Stop ''verifier-7'']
   \<and> errors (output' (clientOf (validateEgress env_stuck client0 ''subnet'' [] [] 10 proxy0)))
       = [TimedOut]
   \<and> stopCalls (clientOf (validateEgress env_stuck client0 ''subnet'' [] [] 10 proxy0))
       = [Stop ''verifier-7'']
   \<and> errors (output' (clientOf (validateEgress env_silent_console client0 ''subnet'' [] [] 10 proxy0)))
       = [TimedOut]
   \<and> stopCalls (clientOf (validateEgress env_silent_console client0 ''subnet'' [] [] 10 proxy0))
       = [Stop ''verifier-7'']"
proof -
  have s: "stopCalls client0 = []" by (simp add: stopCalls_def client0_def)
  have n: "\<And>e. randIntn e = 7 \<Longrightarrow> ''verifier-'' @ showNat (randIntn e) = ''verifier-7''"
    by (simp add: showNat.simps)
  have once: "stopCalls (clientOf (validateEgress e client0 ''subnet'' [] [] 10 proxy0))
                = [Stop ''verifier-7'']"
    if "returned (validateEgress e client0 ''subnet'' [] [] 10 proxy0)" and "randIntn e = 7" for e
  proof -
    from that(1) obtain c' where c': "validateEgress e client0 ''subnet'' [] [] 10 proxy0 = Return c'"
      by (cases "validateEgress e client0 ''subnet'' [] [] 10 proxy0") auto
    from terminate_once_when_returning[OF c'] c' s n[OF that(2)] show ?thesis by simp
  qed
  have r1: "returned (validateEgress env_ok client0 ''subnet'' [] [] 10 proxy0)"
    by code_simp
  have r2: "returned (validateEgress env_stuck client0 ''subnet'' [] [] 10 proxy0)"
    by code_simp
  have r3: "returned (validateEgress env_silent_console client0 ''subnet'' [] [] 10 proxy0)"
    by code_simp
  have e2: "errors (output' (clientOf (validateEgress env_stuck client0 ''subnet'' [] [] 10 proxy0)))
       = [TimedOut]"
    by code_simp
  have e3: "errors (output' (clientOf (validateEgress env_silent_console client0 ''subnet'' [] [] 10 proxy0)))
       = [TimedOut]"
    by code_simp
  have i1: "randIntn env_ok = 7" by (simp add: env_ok_def)
  have i2: "randIntn env_stuck = 7" by (simp add: env_stuck_def env_ok_def)
  have i3: "randIntn env_silent_console = 7" by (simp add: env_silent_console_def env_ok_def)
  from r1 once[OF r1 i1] e2 once[OF r2 i2] e3 once[OF r3 i3] show ?thesis by blast
qed

text \<open>
  Against C1 as stated (terminate is never invoked on the immediate create-failure path): when
  the insert call fails, the run returns and has made one stop call.
\<close>

theorem create_failure_terminates_counterexample:
  "insertResp env_insert_fails = Some (ApiError ''quota exceeded'')
   \<and> returned (validateEgress env_insert_fails client0 ''subnet'' [] [] 10 proxy0)
   \<and> stopCalls (clientOf (validateEgress env_insert_fails client0 ''subnet'' [] [] 10 proxy0))
       = [Stop ''verifier-7'']"
  by code_simp

subsection \<open>The deadline of the readiness wait (C2)\<close>




subsection \<open>Unreachable endpoints (C3)\<close>




subsection \<open>Status classes of the readiness wait (C4)\<close>

text \<open>
  Claim C4, as the code has it. Let the readiness wait reach tick \<open>k\<close> (the \<open>k\<close> ticks before it
  saw pending statuses), and let the describe call of that tick return a response. If its
  status is one of \<^verbatim>\<open>STOPPING\<close>, \<^verbatim>\<open>STOPPED\<close>, \<^verbatim>\<open>TERMINATED\<close>, \<^verbatim>\<open>SUSPENDED\<close>, the wait ends
  with the fatal error that names the status, and never with success. If it is \<^verbatim>\<open>RUNNING\<close>,
  the wait ends with success. If it is \<^verbatim>\<open>PROVISIONING\<close>, \<^verbatim>\<open>STAGING\<close>, the empty string, or
  any other string except the two codes \<^verbatim>\<open>FATAL\<close> and \<^verbatim>\<open>PERMISSION DENIED\<close>, the tick reports
  not done with no error and the wait continues with the remaining ticks; at the last tick
  (\<open>k = 23\<close>) that is the timeout. A response whose status string is \<^verbatim>\<open>FATAL\<close> or
  \<^verbatim>\<open>PERMISSION DENIED\<close> ends the wait with an error: the source uses these two strings as its
  own codes and cannot tell them from a status.
\<close>

theorem awaitRunning_status_classes:
  assumes "k < 24"
    and "\<forall>i<k. pendingAt e (getCount c + i)"
    and "getResp e (getCount c + k) = Inr resp"
  shows
    "(Status resp \<in> {''STOPPING'', ''STOPPED'', ''TERMINATED'', ''SUSPENDED''} \<longrightarrow>
        waitForComputeServiceInstanceCompletion e c name =
          (Some (InstanceAlreadyExists name (Some (FatalStatus (Status resp)))),
           described c name (Suc k)))
     \<and> (Status resp = ''RUNNING'' \<longrightarrow>
          waitForComputeServiceInstanceCompletion e c name = (None, described c name (Suc k)))
     \<and> (Status resp = ''FATAL'' \<longrightarrow>
          waitForComputeServiceInstanceCompletion e c name =
            (Some (InstanceAlreadyExists name None), described c name (Suc k)))
     \<and> (Status resp = ''PERMISSION DENIED'' \<longrightarrow>
          waitForComputeServiceInstanceCompletion e c name =
            (Some (MissingPermissions None), described c name (Suc k)))
     \<and> (Status resp \<in> {''PROVISIONING'', ''STAGING'', []}
          \<or> Status resp \<notin> {''RUNNING'', ''STOPPING'', ''STOPPED'', ''TERMINATED'', ''SUSPENDED'',
                              ''FATAL'', ''PERMISSION DENIED''} \<longrightarrow>
          waitCondition e name (described c name k) = ((False, None), described c name (Suc k))
          \<and> waitForComputeServiceInstanceCompletion e c name =
              pollTicks (23 - k) (waitCondition e name) (described c name (Suc k))
          \<and> (k = 23 \<longrightarrow>
               waitForComputeServiceInstanceCompletion e c name =
                 (Some TimedOut, described c name 24)))"
proof -
  have g: "getResp e (getCount (described c name k)) = Inr resp"
    using assms(3) by simp
  note r = wait_reaches[OF assms(1,2), of name]
  have fatal: "Status resp \<in> {''STOPPING'', ''STOPPED'', ''TERMINATED'', ''SUSPENDED''} \<Longrightarrow>
        waitForComputeServiceInstanceCompletion e c name =
          (Some (InstanceAlreadyExists name (Some (FatalStatus (Status resp)))),
           described c name (Suc k))"
    by (simp add: r waitCondition_fatal[OF g] described_Suc)
  have running: "Status resp = ''RUNNING'' \<Longrightarrow>
        waitForComputeServiceInstanceCompletion e c name = (None, described c name (Suc k))"
    by (simp add: r waitCondition_running[OF g] described_Suc)
  have s1: "Status resp = ''FATAL'' \<Longrightarrow>
        waitForComputeServiceInstanceCompletion e c name =
          (Some (InstanceAlreadyExists name None), described c name (Suc k))"
    by (simp add: r waitCondition_sentinel_fatal[OF g] described_Suc)
  have s2: "Status resp = ''PERMISSION DENIED'' \<Longrightarrow>
        waitForComputeServiceInstanceCompletion e c name =
          (Some (MissingPermissions None), described c name (Suc k))"
    by (simp add: r waitCondition_sentinel_denied[OF g] described_Suc)
  have pend: "waitCondition e name (described c name k) = ((False, None), described c name (Suc k))
          \<and> waitForComputeServiceInstanceCompletion e c name =
              pollTicks (23 - k) (waitCondition e name) (described c name (Suc k))
          \<and> (k = 23 \<longrightarrow>
               waitForComputeServiceInstanceCompletion e c name =
                 (Some TimedOut, described c name 24))"
    if "Status resp \<in> {''PROVISIONING'', ''STAGING'', []}
          \<or> Status resp \<notin> {''RUNNING'', ''STOPPING'', ''STOPPED'', ''TERMINATED'', ''SUSPENDED'',
                              ''FATAL'', ''PERMISSION DENIED''}"
  proof -
    from that have "Status resp \<notin> {''RUNNING'', ''STOPPING'', ''STOPPED'', ''TERMINATED'',
        ''SUSPENDED'', ''FATAL'', ''PERMISSION DENIED''}"
      by auto
    then have "pendingAt e (getCount (described c name k))"
      using g by (simp add: pendingAt_def)
    from waitCondition_pending[OF this, of name]
    have w: "waitCondition e name (described c name k) = ((False, None), described c name (Suc k))"
      by (simp add: described_Suc)
    have p: "waitForComputeServiceInstanceCompletion e c name =
              pollTicks (23 - k) (waitCondition e name) (described c name (Suc k))"
      by (simp add: r w)
    have "k = 23 \<Longrightarrow> waitForComputeServiceInstanceCompletion e c name =
                 (Some TimedOut, described c name 24)"
      using p by simp
    with w p show ?thesis by blast
  qed
  from fatal running s1 s2 pend show ?thesis by blast
qed

text \<open>
  The theorem at a run with two empty statuses and then \<^verbatim>\<open>STOPPED\<close>.
\<close>

theorem awaitRunning_status_classes_witness:
  "pendingAt env_stopped 0 \<and> pendingAt env_stopped 1
   \<and> getResp env_stopped 2 = Inr (withStatus ''STOPPED'')
   \<and> waitForComputeServiceInstanceCompletion env_stopped client0 ''verifier-7'' =
       (Some (InstanceAlreadyExists ''verifier-7'' (Some (FatalStatus ''STOPPED''))),
        client0\<lparr>calls := [Get ''verifier-7'', Get ''verifier-7'', Get ''verifier-7'']\<rparr>)"
proof -
  have p: "\<forall>i<2. pendingAt env_stopped (getCount client0 + i)"
    by (simp add: pendingAt_def env_stopped_def withStatus_def)
  have g: "getResp env_stopped (getCount client0 + 2) = Inr (withStatus ''STOPPED'')"
    by (simp add: env_stopped_def)
  have d: "described client0 ''verifier-7'' (Suc 2) =
           client0\<lparr>calls := [Get ''verifier-7'', Get ''verifier-7'', Get ''verifier-7'']\<rparr>"
    by (simp add: described_def client0_def numeral_2_eq_2)
  have k: "(2::nat) < 24" by simp
  have st: "Status (withStatus ''STOPPED'') = ''STOPPED''" by (simp add: withStatus_def)
  have w: "waitForComputeServiceInstanceCompletion env_stopped client0 ''verifier-7'' =
       (Some (InstanceAlreadyExists ''verifier-7'' (Some (FatalStatus ''STOPPED''))),
        client0\<lparr>calls := [Get ''verifier-7'', Get ''verifier-7'', Get ''verifier-7'']\<rparr>)"
    using awaitRunning_status_classes[OF k p g, of "''verifier-7''"] unfolding d st by simp
  have p0: "pendingAt env_stopped 0" and p1: "pendingAt env_stopped 1"
    by (simp_all add: pendingAt_def env_stopped_def withStatus_def)
  have g2: "getResp env_stopped 2 = Inr (withStatus ''STOPPED'')"
    by (simp add: env_stopped_def)
  from p0 p1 g2 w show ?thesis by blast
qed

text \<open>
  Against C4 as stated (every unrecognized status string keeps the wait polling): the status
  string \<^verbatim>\<open>FATAL\<close> is none of the provider's statuses, the next describe would report
  \<^verbatim>\<open>RUNNING\<close>, and the wait ends with an error after one describe call.
\<close>

theorem sentinel_status_counterexample:
  "getResp env_sentinel 0 = Inr (withStatus ''FATAL'')
   \<and> getResp env_sentinel 1 = Inr (withStatus ''RUNNING'')
   \<and> ''FATAL'' \<notin> {''RUNNING'', ''STOPPING'', ''STOPPED'', ''TERMINATED'', ''SUSPENDED''}
   \<and> waitForComputeServiceInstanceCompletion env_sentinel client0 ''verifier-7'' =
       (Some (InstanceAlreadyExists ''verifier-7'' None), client0\<lparr>calls := [Get ''verifier-7'']\<rparr>)"
  by code_simp

subsection \<open>The marker gate (C5)\<close>

text \<open>
  Claim C5. A tick of the console-log analyzer whose fetched text does not contain the
  completion marker reports not done and leaves the result as it was, whatever else the text
  contains: no pattern is parsed and nothing is recorded. When the marker first appears at
  tick \<open>k\<close> (the \<open>k\<close> ticks before it fetched no error and no marker), the poll ends with that
  tick, after exactly \<open>k + 1\<close> fetches and with no error, and the result is the one before
  the poll with the findings of that one text added: parsing happened once.
\<close>

theorem parse_only_on_marker_tick:
  "(serialResp e (serialCount c) = Inr (Some t) \<and> \<not> sublist userdataEndVerifier t \<longrightarrow>
      consoleCondition e name c = ((False, None), called c (GetSerialPortOutput name))
      \<and> output' (snd (consoleCondition e name c)) = output' c)
   \<and> (k < 8 \<and> (\<forall>i<k. noMarkerAt e (serialCount c + i))
       \<and> serialResp e (serialCount c + k) = Inr (Some t') \<and> sublist userdataEndVerifier t' \<longrightarrow>
      findUnreachableEndpoints e c name =
        (None,
         (fetched c name (Suc k))
           \<lparr>output' :=
              \<lparr>errors = errors (output' c),
               exceptions = exceptions (output' c) @
                 (if \<exists>l \<in> set (splitLines t'). failureIndicator l then [connectivityProblem] else []),
               egressFailures = egressFailures (output' c) @ reUnreachableErrors_FindAllString t'\<rparr>\<rparr>))"
proof -
  have a: "consoleCondition e name c = ((False, None), called c (GetSerialPortOutput name))
      \<and> output' (snd (consoleCondition e name c)) = output' c"
    if "serialResp e (serialCount c) = Inr (Some t)" and "\<not> sublist userdataEndVerifier t"
  proof -
    from that have "noMarkerAt e (serialCount c)" by (simp add: noMarkerAt_def)
    from consoleCondition_no_marker[OF this, of name] show ?thesis by simp
  qed
  have b: "findUnreachableEndpoints e c name =
        (None,
         (fetched c name (Suc k))
           \<lparr>output' :=
              \<lparr>errors = errors (output' c),
               exceptions = exceptions (output' c) @
                 (if \<exists>l \<in> set (splitLines t'). failureIndicator l then [connectivityProblem] else []),
               egressFailures = egressFailures (output' c) @ reUnreachableErrors_FindAllString t'\<rparr>\<rparr>)"
    if "k < 8" and "\<forall>i<k. noMarkerAt e (serialCount c + i)"
      and "serialResp e (serialCount c + k) = Inr (Some t')" and "sublist userdataEndVerifier t'"
    using that by (rule console_run)
  from a b show ?thesis by blast
qed

text \<open>
  The theorem at a console that first shows a partial log, with a failure indicator and an
  unreachable host in it and no marker, and then the finished log.
\<close>

theorem parse_only_on_marker_tick_witness:
  "serialResp env_partial_console 0 = Inr (Some consolePartial)
   \<and> \<not> sublist userdataEndVerifier consolePartial
   \<and> sublist ''Failed'' consolePartial \<and> sublist ''Unable to reach host1.example.com'' consolePartial
   \<and> consoleCondition env_partial_console ''verifier-7'' client0 =
        ((False, None), called client0 (GetSerialPortOutput ''verifier-7''))
   \<and> output' (snd (consoleCondition env_partial_console ''verifier-7'' client0)) = output' client0
   \<and> serialResp env_partial_console 1 = Inr (Some consoleTwoHosts)
   \<and> sublist userdataEndVerifier consoleTwoHosts
   \<and> findUnreachableEndpoints env_partial_console client0 ''verifier-7'' =
        (None,
         client0\<lparr>calls := [GetSerialPortOutput ''verifier-7'', GetSerialPortOutput ''verifier-7''],
                 output' := \<lparr>errors = [], exceptions = [],
                             egressFailures = [''Unable to reach host1.example.com'',
                                               ''Unable to reach host2.example.com'']\<rparr>\<rparr>)"
proof -
  have r0: "serialResp env_partial_console (serialCount client0) = Inr (Some consolePartial)"
    by (simp add: env_partial_console_def)
  have m0: "\<not> sublist userdataEndVerifier consolePartial"
    unfolding contains_sublist[symmetric] by code_simp
  have f0: "sublist ''Failed'' consolePartial"
    unfolding contains_sublist[symmetric] by code_simp
  have u0: "sublist ''Unable to reach host1.example.com'' consolePartial"
    unfolding contains_sublist[symmetric] by code_simp
  have n: "\<forall>i<1. noMarkerAt env_partial_console (serialCount client0 + i)"
    using m0 by (simp add: noMarkerAt_def env_partial_console_def)
  have r1: "serialResp env_partial_console (serialCount client0 + 1) = Inr (Some consoleTwoHosts)"
    by (simp add: env_partial_console_def)
  have m1: "sublist userdataEndVerifier consoleTwoHosts"
    unfolding contains_sublist[symmetric] by code_simp
  have k: "(1::nat) < 8" by simp
  have fl: "\<not> (\<exists>l \<in> set (splitLines consoleTwoHosts). failureIndicator l)"
    by code_simp
  have ms: "reUnreachableErrors_FindAllString consoleTwoHosts =
            [''Unable to reach host1.example.com'', ''Unable to reach host2.example.com'']"
    by code_simp
  have ft: "fetched client0 ''verifier-7'' (Suc 1) =
            client0\<lparr>calls := [GetSerialPortOutput ''verifier-7'', GetSerialPortOutput ''verifier-7'']\<rparr>"
    by (simp add: fetched_def client0_def)
  note th = parse_only_on_marker_tick[of env_partial_console client0 consolePartial "''verifier-7''"
      1 consoleTwoHosts]
  from th r0 m0 have a: "consoleCondition env_partial_console ''verifier-7'' client0 =
        ((False, None), called client0 (GetSerialPortOutput ''verifier-7''))
      \<and> output' (snd (consoleCondition env_partial_console ''verifier-7'' client0)) = output' client0"
    by blast
  from th k n r1 m1 have "findUnreachableEndpoints env_partial_console client0 ''verifier-7'' =
        (None,
         (fetched client0 ''verifier-7'' (Suc 1))
           \<lparr>output' :=
              \<lparr>errors = errors (output' client0),
               exceptions = exceptions (output' client0) @
                 (if \<exists>l \<in> set (splitLines consoleTwoHosts). failureIndicator l
                  then [connectivityProblem] else []),
               egressFailures = egressFailures (output' client0) @
                 reUnreachableErrors_FindAllString consoleTwoHosts\<rparr>\<rparr>)"
    by blast
  then have b: "findUnreachableEndpoints env_partial_console client0 ''verifier-7'' =
        (None,
         client0\<lparr>calls := [GetSerialPortOutput ''verifier-7'', GetSerialPortOutput ''verifier-7''],
                 output' := \<lparr>errors = [], exceptions = [],
                             egressFailures = [''Unable to reach host1.example.com'',
                                               ''Unable to reach host2.example.com'']\<rparr>\<rparr>)"
    unfolding ft ms using fl by (simp add: client0_def)
  have r0': "serialResp env_partial_console 0 = Inr (Some consolePartial)"
    and r1': "serialResp env_partial_console 1 = Inr (Some consoleTwoHosts)"
    by (simp_all add: env_partial_console_def)
  from r0' m0 f0 u0 a r1' m1 b show ?thesis by blast
qed

subsection \<open>The aggregate connectivity failure (C6)\<close>

text \<open>
  Claim C6. When the console text scanned at the marker tick has one or more lines that contain
  \<^verbatim>\<open>Cannot\<close>, \<^verbatim>\<open>Could not\<close>, \<^verbatim>\<open>Failed\<close> or \<^verbatim>\<open>command not found\<close> (case-sensitive), exactly
  one connectivity failure is recorded on the result, however many lines match; when no line
  matches, none is recorded. The console text is the string the source scans, the rendering
  of the serial-port response.
\<close>

theorem one_aggregate_connectivity_failure:
  assumes "k < 8"
    and "\<forall>i<k. noMarkerAt e (serialCount c + i)"
    and "serialResp e (serialCount c + k) = Inr (Some t)"
    and "sublist userdataEndVerifier t"
  shows "exceptions (output' (snd (findUnreachableEndpoints e c name))) =
           exceptions (output' c) @
             (if \<exists>l \<in> set (splitLines t). sublist ''Cannot'' l \<or> sublist ''Could not'' l
                   \<or> sublist ''Failed'' l \<or> sublist ''command not found'' l
              then [connectivityProblem] else [])
       \<and> errors (output' (snd (findUnreachableEndpoints e c name))) = errors (output' c)"
  by (simp add: console_run[OF assms] failureIndicator_def contains_sublist)

text \<open>
  The theorem at a console with two matching lines (one failure recorded), and at one with
  no matching line (none recorded).
\<close>

theorem one_aggregate_connectivity_failure_witness:
  "noMarkerAt env_failed_console 0
   \<and> serialResp env_failed_console 1 = Inr (Some consoleFailedLines)
   \<and> sublist userdataEndVerifier consoleFailedLines
   \<and> splitLines consoleFailedLines = [''Failed to connect'', ''curl: command not found'', ''USERDATA END'']
   \<and> exceptions (output' (snd (findUnreachableEndpoints env_failed_console client0 ''verifier-7'')))
        = [connectivityProblem]
   \<and> exceptions (output' (snd (findUnreachableEndpoints env_ok client0 ''verifier-7''))) = []"
proof -
  have n0: "noMarkerAt env_failed_console 0"
    by (simp add: noMarkerAt_def env_failed_console_def)
  then have n: "\<forall>i<1. noMarkerAt env_failed_console (serialCount client0 + i)" by simp
  have r1: "serialResp env_failed_console (serialCount client0 + 1) = Inr (Some consoleFailedLines)"
    by (simp add: env_failed_console_def)
  have m1: "sublist userdataEndVerifier consoleFailedLines"
    unfolding contains_sublist[symmetric] by code_simp
  have sl: "splitLines consoleFailedLines =
            [''Failed to connect'', ''curl: command not found'', ''USERDATA END'']"
    by code_simp
  have f1: "sublist ''Failed'' ''Failed to connect''"
    unfolding contains_sublist[symmetric] by code_simp
  have k: "(1::nat) < 8" by simp
  have e0: "exceptions (output' client0) = []" by (simp add: client0_def)
  have a: "exceptions (output' (snd (findUnreachableEndpoints env_failed_console client0 ''verifier-7'')))
        = [connectivityProblem]"
    using one_aggregate_connectivity_failure[OF k n r1 m1, of "''verifier-7''"] f1
    unfolding sl e0 by simp
  have k0: "(0::nat) < 8" by simp
  have z: "\<forall>i<0. noMarkerAt env_ok (serialCount client0 + i)" by simp
  have r0: "serialResp env_ok (serialCount client0 + 0) = Inr (Some consoleTwoHosts)"
    by (simp add: env_ok_def)
  have m0: "sublist userdataEndVerifier consoleTwoHosts"
    unfolding contains_sublist[symmetric] by code_simp
  have none: "\<not> (\<exists>l \<in> set (splitLines consoleTwoHosts). sublist ''Cannot'' l \<or> sublist ''Could not'' l
                   \<or> sublist ''Failed'' l \<or> sublist ''command not found'' l)"
    unfolding contains_sublist[symmetric] by code_simp
  have b: "exceptions (output' (snd (findUnreachableEndpoints env_ok client0 ''verifier-7''))) = []"
    using one_aggregate_connectivity_failure[OF k0 z r0 m0, of "''verifier-7''"] none
    unfolding e0 by simp
  have r1': "serialResp env_failed_console 1 = Inr (Some consoleFailedLines)"
    by (simp add: env_failed_console_def)
  from n0 r1' m1 sl a b show ?thesis by blast
qed

subsection \<open>The result on control errors (C7)\<close>

text \<open>
  A run returns unless \<^verbatim>\<open>createComputeServiceInstance\<close> panics, that is, unless the insert
  succeeds and the get that follows it fails. A run that returns has recorded the error of
  the step that failed: of the create step, of the readiness wait, or of the analysis.
\<close>

lemma errors_terminate:
  "set (errors (output' c)) \<subseteq> set (errors (output' (terminateComputeServiceInstance e c name)))"
  by (auto simp: terminateComputeServiceInstance_def Let_def AddError_def split: option.splits)

lemma validateEgress_returns:
  assumes "insertResp e \<noteq> None \<or> (\<exists>inst. getResp e (getCount c) = Inr inst)"
  shows "returned (validateEgress e c subnet cloudImageID kmsKeyID timeout p)"
  using assms
  by (auto simp: validateEgress_def generateUserData_def setCloudImage_def
      createComputeServiceInstance_def Let_def split: option.splits sum.splits prod.splits)

lemma returned_run_records_control_errors:
  assumes "validateEgress e c subnet cloudImageID kmsKeyID timeout p = Return c'"
    and "input = instanceInput e c subnet (fst (generateUserData e (userDataVariables e timeout p)))
                   (fst (setCloudImage cloudImageID))"
    and "name = instanceName input"
  shows "(\<forall>err c1. createComputeServiceInstance e c input = Return (input, Some err, c1)
            \<longrightarrow> err \<in> set (errors (output' c')))
       \<and> (\<forall>err c1 c2. createComputeServiceInstance e c input = Return (input, None, c1)
            \<and> waitForComputeServiceInstanceCompletion e c1 name = (Some err, c2)
            \<longrightarrow> err \<in> set (errors (output' c')))
       \<and> (\<forall>err c1 c2 c3. createComputeServiceInstance e c input = Return (input, None, c1)
            \<and> waitForComputeServiceInstanceCompletion e c1 name = (None, c2)
            \<and> findUnreachableEndpoints e c2 name = (Some err, c3)
            \<longrightarrow> err \<in> set (errors (output' c')))"
proof -
  have gen: "generateUserData e (userDataVariables e timeout p) =
             (fst (generateUserData e (userDataVariables e timeout p)), None)"
    by (simp add: generateUserData_def Let_def)
  have sci: "setCloudImage cloudImageID = (fst (setCloudImage cloudImageID), None)"
    by (simp add: setCloudImage_def)
  have v: "validateEgress e c subnet cloudImageID kmsKeyID timeout p =
     (case createComputeServiceInstance e c input of
        Panic c1 \<Rightarrow> Panic c1
      | Return (instance, Some err, c1) \<Rightarrow>
          (let c2 = terminateComputeServiceInstance e c1 (instanceName instance)
           in Return (c2\<lparr>output' := AddError (output' c2) (Some err)\<rparr>))
      | Return (instance, None, c1) \<Rightarrow>
     (case waitForComputeServiceInstanceCompletion e c1 (instanceName instance) of
        (Some instanceReadyErr, c2) \<Rightarrow>
          (let c3 = terminateComputeServiceInstance e c2 (instanceName instance)
           in Return (c3\<lparr>output' := AddError (output' c3) (Some instanceReadyErr)\<rparr>))
      | (None, c2) \<Rightarrow>
     (case findUnreachableEndpoints e c2 (instanceName instance) of
        (err, c3) \<Rightarrow>
          (let c4 = (case err of
                       Some err' \<Rightarrow> c3\<lparr>output' := AddError (output' c3) (Some err')\<rparr>
                     | None \<Rightarrow> c3)
           in Return (terminateComputeServiceInstance e c4 (instanceName instance))))))"
    unfolding validateEgress_def assms(2)
    by (subst gen, subst sci) simp
  have a: "err \<in> set (errors (output' c'))"
    if "createComputeServiceInstance e c input = Return (input, Some err, c1)" for err c1
    using assms(1) that by (auto simp: v Let_def AddError_def)
  have b: "err \<in> set (errors (output' c'))"
    if "createComputeServiceInstance e c input = Return (input, None, c1)"
      and "waitForComputeServiceInstanceCompletion e c1 name = (Some err, c2)" for err c1 c2
    using assms(1) that by (auto simp: v assms(3) Let_def AddError_def)
  have d: "err \<in> set (errors (output' c'))"
    if "createComputeServiceInstance e c input = Return (input, None, c1)"
      and "waitForComputeServiceInstanceCompletion e c1 name = (None, c2)"
      and "findUnreachableEndpoints e c2 name = (Some err, c3)" for err c1 c2 c3
  proof -
    from assms(1) that have "c' = terminateComputeServiceInstance e
        (c3\<lparr>output' := AddError (output' c3) (Some err)\<rparr>) name"
      by (auto simp: v assms(3) Let_def)
    moreover have "err \<in> set (errors (output' (c3\<lparr>output' := AddError (output' c3) (Some err)\<rparr>)))"
      by (simp add: AddError_def)
    ultimately show ?thesis using errors_terminate by blast
  qed
  from a b d show ?thesis by blast
qed

text \<open>
  Claim C7 says that \<^verbatim>\<open>validateEgress\<close> always returns a result to its caller, with every
  control error recorded in it. The code at the input of C9, where the insert succeeds and
  the follow-up get fails: the run does not return (the panic of
  \<^verbatim>\<open>createComputeServiceInstance\<close> reaches the caller), and neither of its two API calls is a
  stop call.
\<close>

theorem validateEgress_panics:
  "\<not> returned (validateEgress env_get_fails client0 ''subnet'' [] [] 10 proxy0)
   \<and> map isStop (calls (clientOf (validateEgress env_get_fails client0 ''subnet'' [] [] 10 proxy0)))
       = [False, False]"
  by code_simp

subsection \<open>The marker literal (C8)\<close>

text \<open>
  Claim C8. The completion-marker literal that \<^verbatim>\<open>validateEgress\<close> supplies to the boot-script
  templating as the variable \<^verbatim>\<open>USERDATA_END\<close> and the literal the console-log analyzer
  searches for are the same string, for every run: there is one string that is the value of
  \<^verbatim>\<open>USERDATA_END\<close>, whose absence from a text is what \<^verbatim>\<open>reVerify.FindString\<close> reports as an
  empty match, and whose presence in the fetched text is what makes a tick of the analyzer
  report done.
\<close>

theorem marker_literal_in_sync:
  "\<exists>marker. userDataVariables e timeout p ''USERDATA_END'' = Some marker
     \<and> (\<forall>t. (length (reVerify_FindString t) < 1) = (\<not> sublist marker t))
     \<and> (\<forall>c name t. serialResp e (serialCount c) = Inr (Some t) \<longrightarrow>
           fst (fst (consoleCondition e name c)) = sublist marker t)"
proof -
  have a: "userDataVariables e timeout p ''USERDATA_END'' = Some userdataEndVerifier"
    by (simp add: userDataVariables_def)
  have b: "\<forall>t. (length (reVerify_FindString t) < 1) = (\<not> sublist userdataEndVerifier t)"
    by (simp add: reVerify_FindString_def contains_sublist userdataEndVerifier_def)
  have d: "fst (fst (consoleCondition e name c)) = sublist userdataEndVerifier t"
    if "serialResp e (serialCount c) = Inr (Some t)" for c name t
  proof (cases "sublist userdataEndVerifier t")
    case True
    from consoleCondition_marker[OF that True] True show ?thesis by simp
  next
    case False
    with that have "noMarkerAt e (serialCount c)" by (simp add: noMarkerAt_def)
    from consoleCondition_no_marker[OF this] False show ?thesis by simp
  qed
  from a b d show ?thesis by blast
qed

text \<open>
  The theorem at the run in which every call succeeds: the marker is \<^verbatim>\<open>USERDATA END\<close>, the
  generated script carries it, and the first tick is done.
\<close>

theorem marker_literal_in_sync_witness:
  "userDataVariables env_ok 10 proxy0 ''USERDATA_END'' = Some ''USERDATA END''
   \<and> fst (generateUserData env_ok (userDataVariables env_ok 10 proxy0)) = ''echo USERDATA END''
   \<and> serialResp env_ok 0 = Inr (Some consoleTwoHosts)
   \<and> sublist ''USERDATA END'' consoleTwoHosts
   \<and> fst (fst (consoleCondition env_ok ''verifier-7'' client0))"
proof -
  from marker_literal_in_sync[of env_ok 10 proxy0] obtain marker where
    m: "userDataVariables env_ok 10 proxy0 ''USERDATA_END'' = Some marker"
    and g: "\<forall>c name t. serialResp env_ok (serialCount c) = Inr (Some t) \<longrightarrow>
           fst (fst (consoleCondition env_ok name c)) = sublist marker t"
    by blast
  have v: "userDataVariables env_ok 10 proxy0 ''USERDATA_END'' = Some ''USERDATA END''"
    by (simp add: userDataVariables_def userdataEndVerifier_def)
  with m have mk: "marker = ''USERDATA END''" by simp
  have u: "fst (generateUserData env_ok (userDataVariables env_ok 10 proxy0)) = ''echo USERDATA END''"
    by code_simp
  have r0: "serialResp env_ok (serialCount client0) = Inr (Some consoleTwoHosts)"
    by (simp add: env_ok_def)
  have s: "sublist ''USERDATA END'' consoleTwoHosts"
    unfolding contains_sublist[symmetric] by code_simp
  from g r0 have "fst (fst (consoleCondition env_ok ''verifier-7'' client0)) = sublist marker consoleTwoHosts"
    by blast
  with s mk have d: "fst (fst (consoleCondition env_ok ''verifier-7'' client0))" by simp
  have r0': "serialResp env_ok 0 = Inr (Some consoleTwoHosts)" by (simp add: env_ok_def)
  from v u r0' s d show ?thesis by blast
qed

subsection \<open>The label fingerprint (C9)\<close>

text \<open>
  Claim C9 says that after a successful insert, a failed follow-up \<^verbatim>\<open>Instances.Get\<close> does not
  lead to a read of \<^verbatim>\<open>LabelFingerprint\<close> from the absent instance. The code at that input:
  the insert succeeds, the get fails, the error is logged, and the read of
  \<^verbatim>\<open>inst.LabelFingerprint\<close> panics; no \<^verbatim>\<open>SetLabels\<close> call is made.
\<close>

theorem fingerprint_get_failure_panics:
  "createComputeServiceInstance env_get_fails client0
     (instanceInput env_get_fails client0 ''subnet'' ''script'' ''cos-97-lts'')
   = Panic (called (called client0
              (Insert (instanceInput env_get_fails client0 ''subnet'' ''script'' ''cos-97-lts'')))
              (Get ''verifier-7''))"
  by code_simp

subsection \<open>Describe errors (C10)\<close>

text \<open>
  Claim C10. Every error of the per-tick describe call (\<^verbatim>\<open>Instances.Get\<close>) during the
  readiness wait is classified as \<^verbatim>\<open>PERMISSION DENIED\<close>, whatever the error is, and makes the
  wait abort at once with the missing-permissions error: when the wait reaches tick \<open>k\<close>
  (the \<open>k\<close> ticks before it saw pending statuses) and that describe call fails with \<open>err\<close>,
  \<^verbatim>\<open>describeComputeServiceInstances\<close> returns the code \<^verbatim>\<open>PERMISSION DENIED\<close> with \<open>err\<close>, and
  the wait returns \<open>MissingPermissions (Some err)\<close> after exactly \<open>k + 1\<close> describe calls: the
  failed call is not retried.
\<close>

theorem describe_error_aborts_wait:
  assumes "k < 24"
    and "\<forall>i<k. pendingAt e (getCount c + i)"
    and "getResp e (getCount c + k) = Inl err"
  shows "fst (describeComputeServiceInstances e (described c name k) name) = (''PERMISSION DENIED'', Some err)
       \<and> waitForComputeServiceInstanceCompletion e c name =
           (Some (MissingPermissions (Some err)), described c name (Suc k))"
proof -
  have g: "getResp e (getCount (described c name k)) = Inl err"
    using assms(3) by simp
  show ?thesis
    by (simp add: wait_reaches[OF assms(1,2)] waitCondition_error[OF g] described_Suc)
      (simp add: describeComputeServiceInstances_def assms(3) Let_def)
qed

text \<open>
  The theorem at a run whose third describe call fails with a connection reset.
\<close>

theorem describe_error_aborts_wait_witness:
  "pendingAt env_describe_fails 0 \<and> pendingAt env_describe_fails 1
   \<and> getResp env_describe_fails 2 = Inl (ApiError ''connection reset'')
   \<and> waitForComputeServiceInstanceCompletion env_describe_fails client0 ''verifier-7'' =
       (Some (MissingPermissions (Some (ApiError ''connection reset''))),
        client0\<lparr>calls := [Get ''verifier-7'', Get ''verifier-7'', Get ''verifier-7'']\<rparr>)"
proof -
  have p: "\<forall>i<2. pendingAt env_describe_fails (getCount client0 + i)"
    by (simp add: pendingAt_def env_describe_fails_def withStatus_def)
  have g: "getResp env_describe_fails (getCount client0 + 2) = Inl (ApiError ''connection reset'')"
    by (simp add: env_describe_fails_def)
  have d: "described client0 ''verifier-7'' (Suc 2) =
           client0\<lparr>calls := [Get ''verifier-7'', Get ''verifier-7'', Get ''verifier-7'']\<rparr>"
    by (simp add: described_def client0_def numeral_2_eq_2)
  have k: "(2::nat) < 24" by simp
  have w: "waitForComputeServiceInstanceCompletion env_describe_fails client0 ''verifier-7'' =
       (Some (MissingPermissions (Some (ApiError ''connection reset''))),
        client0\<lparr>calls := [Get ''verifier-7'', Get ''verifier-7'', Get ''verifier-7'']\<rparr>)"
    using describe_error_aborts_wait[OF k p g, of "''verifier-7''"] unfolding d by blast
  have p0: "pendingAt env_describe_fails 0" and p1: "pendingAt env_describe_fails 1"
    by (simp_all add: pendingAt_def env_describe_fails_def withStatus_def)
  have g2: "getResp env_describe_fails 2 = Inl (ApiError ''connection reset'')"
    by (simp add: env_describe_fails_def)
  from p0 p1 g2 w show ?thesis by blast
qed

end
